theory Spec2Isabelle
  imports Complex_Main
begin

section \<open>Loss functions of \<^verbatim>\<open>machine_learning/loss_functions.py\<close>\<close>

text \<open>
  The module is a family of independent functions from numpy arrays to one scalar.
  Every function validates its arguments first and raises \<^verbatim>\<open>ValueError\<close> (the
  specification's InvalidInput) when a check fails.

  Numbers. A numpy \<^verbatim>\<open>float64\<close> is modelled by \<open>fval\<close>: a real number, or one of the
  three non-finite values \<^verbatim>\<open>inf\<close>, \<^verbatim>\<open>-inf\<close>, \<^verbatim>\<open>nan\<close>. Finite arithmetic is exact real
  arithmetic: rounding, overflow, underflow and the sign of zero are not modelled. The
  non-finite values are kept because numpy produces them from finite input without
  raising (the mean of an empty array, the logarithm of a non-positive number, a
  division by zero), so they are results the functions really return. Hyperparameters
  (\<^verbatim>\<open>epsilon\<close>, \<^verbatim>\<open>gamma\<close>, \<^verbatim>\<open>alpha\<close>, \<^verbatim>\<open>delta\<close>, \<^verbatim>\<open>m\<close>) are finite Python floats: \<open>real\<close>.

  Arrays. A one-dimensional array is a list; its \<^verbatim>\<open>len\<close> is the length of the list.
  Arrays of two and three dimensions are records of the shape and the nested rows.
\<close>

subsection \<open>Errors\<close>

datatype error =
    ValueError string
  | IndexError int nat  \<comment> \<open>index, size of the axis\<close>

fun is_InvalidInput :: "error + 'a \<Rightarrow> bool" where
  "is_InvalidInput (Inl (ValueError msg)) = True"
| "is_InvalidInput (Inl (IndexError i n)) = False"
| "is_InvalidInput (Inr v) = False"

subsection \<open>Scalars\<close>

datatype fval = Fin real | PInf | NInf | NaN

fun fneg :: "fval \<Rightarrow> fval" where
  "fneg (Fin a) = Fin (- a)"
| "fneg PInf = NInf"
| "fneg NInf = PInf"
| "fneg NaN = NaN"

fun fadd :: "fval \<Rightarrow> fval \<Rightarrow> fval" where
  "fadd (Fin a) (Fin b) = Fin (a + b)"
| "fadd (Fin a) PInf = PInf"
| "fadd (Fin a) NInf = NInf"
| "fadd PInf (Fin b) = PInf"
| "fadd PInf PInf = PInf"
| "fadd PInf NInf = NaN"
| "fadd NInf (Fin b) = NInf"
| "fadd NInf PInf = NaN"
| "fadd NInf NInf = NInf"
| "fadd NaN y = NaN"
| "fadd x NaN = NaN"

definition fsub :: "fval \<Rightarrow> fval \<Rightarrow> fval" where
  "fsub x y = fadd x (fneg y)"

text \<open>The sign of a product with an infinity; zero times infinity is \<^verbatim>\<open>nan\<close>.\<close>

definition signed_inf :: "real \<Rightarrow> fval" where
  "signed_inf a = (if a = 0 then NaN else if 0 < a then PInf else NInf)"

fun fmul :: "fval \<Rightarrow> fval \<Rightarrow> fval" where
  "fmul (Fin a) (Fin b) = Fin (a * b)"
| "fmul (Fin a) PInf = signed_inf a"
| "fmul (Fin a) NInf = signed_inf (- a)"
| "fmul PInf (Fin b) = signed_inf b"
| "fmul NInf (Fin b) = signed_inf (- b)"
| "fmul PInf PInf = PInf"
| "fmul PInf NInf = NInf"
| "fmul NInf PInf = NInf"
| "fmul NInf NInf = PInf"
| "fmul NaN y = NaN"
| "fmul x NaN = NaN"

text \<open>\<^verbatim>\<open>x ** 2\<close> on an array is the element-wise square.\<close>

definition fsquare :: "fval \<Rightarrow> fval" where
  "fsquare x = fmul x x"

text \<open>Division; a finite non-zero number divided by zero is an infinity (zero is \<^verbatim>\<open>+0.0\<close>).\<close>

fun fdiv :: "fval \<Rightarrow> fval \<Rightarrow> fval" where
  "fdiv (Fin a) (Fin b) = (if b = 0 then signed_inf a else Fin (a / b))"
| "fdiv (Fin a) PInf = Fin 0"
| "fdiv (Fin a) NInf = Fin 0"
| "fdiv PInf (Fin b) = (if 0 \<le> b then PInf else NInf)"
| "fdiv NInf (Fin b) = (if 0 \<le> b then NInf else PInf)"
| "fdiv PInf PInf = NaN"
| "fdiv PInf NInf = NaN"
| "fdiv NInf PInf = NaN"
| "fdiv NInf NInf = NaN"
| "fdiv NaN y = NaN"
| "fdiv x NaN = NaN"

fun fabs :: "fval \<Rightarrow> fval" where
  "fabs (Fin a) = Fin \<bar>a\<bar>"
| "fabs PInf = PInf"
| "fabs NInf = PInf"
| "fabs NaN = NaN"

fun flog :: "fval \<Rightarrow> fval" where
  "flog (Fin a) = (if 0 < a then Fin (ln a) else if a = 0 then NInf else NaN)"
| "flog PInf = PInf"
| "flog NInf = NaN"
| "flog NaN = NaN"

fun flog1p :: "fval \<Rightarrow> fval" where
  "flog1p (Fin a) = (if - 1 < a then Fin (ln (1 + a)) else if a = - 1 then NInf else NaN)"
| "flog1p PInf = PInf"
| "flog1p NInf = NaN"
| "flog1p NaN = NaN"

fun fexp :: "fval \<Rightarrow> fval" where
  "fexp (Fin a) = Fin (exp a)"
| "fexp PInf = PInf"
| "fexp NInf = Fin 0"
| "fexp NaN = NaN"

fun fsqrt :: "fval \<Rightarrow> fval" where
  "fsqrt (Fin a) = (if 0 \<le> a then Fin (sqrt a) else NaN)"
| "fsqrt PInf = PInf"
| "fsqrt NInf = NaN"
| "fsqrt NaN = NaN"

text \<open>
  \<^verbatim>\<open>x ** gamma\<close> with a float exponent: \<^verbatim>\<open>pow\<close> of the C library. Anything to the power
  0 is 1; a negative base has a value only for an integral exponent.
\<close>

definition is_integral :: "real \<Rightarrow> bool" where
  "is_integral g = (g = of_int \<lfloor>g\<rfloor>)"

definition is_odd_integral :: "real \<Rightarrow> bool" where
  "is_odd_integral g = (is_integral g \<and> odd \<lfloor>g\<rfloor>)"

fun fpow :: "fval \<Rightarrow> real \<Rightarrow> fval" where
  "fpow (Fin a) g =
     (if g = 0 then Fin 1
      else if 0 < a then Fin (a powr g)
      else if a = 0 then (if 0 < g then Fin 0 else PInf)
      else if is_odd_integral g then Fin (- (\<bar>a\<bar> powr g))
      else if is_integral g then Fin (\<bar>a\<bar> powr g)
      else NaN)"
| "fpow PInf g = (if g = 0 then Fin 1 else if 0 < g then PInf else Fin 0)"
| "fpow NInf g =
     (if g = 0 then Fin 1
      else if 0 < g then (if is_odd_integral g then NInf else PInf)
      else Fin 0)"
| "fpow NaN g = (if g = 0 then Fin 1 else NaN)"

text \<open>Comparisons: every comparison with \<^verbatim>\<open>nan\<close> is false, except \<^verbatim>\<open>!=\<close>.\<close>

fun fle :: "fval \<Rightarrow> fval \<Rightarrow> bool" where
  "fle (Fin a) (Fin b) = (a \<le> b)"
| "fle (Fin a) PInf = True"
| "fle (Fin a) NInf = False"
| "fle PInf (Fin b) = False"
| "fle PInf PInf = True"
| "fle PInf NInf = False"
| "fle NInf (Fin b) = True"
| "fle NInf PInf = True"
| "fle NInf NInf = True"
| "fle NaN y = False"
| "fle x NaN = False"

definition feq :: "fval \<Rightarrow> fval \<Rightarrow> bool" where
  "feq x y = (x \<noteq> NaN \<and> x = y)"

definition fne :: "fval \<Rightarrow> fval \<Rightarrow> bool" where
  "fne x y = (\<not> feq x y)"

text \<open>\<^verbatim>\<open>np.maximum\<close> and \<^verbatim>\<open>np.minimum\<close> propagate \<^verbatim>\<open>nan\<close>.\<close>

definition fmaximum :: "fval \<Rightarrow> fval \<Rightarrow> fval" where
  "fmaximum x y = (if x = NaN \<or> y = NaN then NaN else if fle x y then y else x)"

definition fminimum :: "fval \<Rightarrow> fval \<Rightarrow> fval" where
  "fminimum x y = (if x = NaN \<or> y = NaN then NaN else if fle x y then x else y)"

text \<open>\<^verbatim>\<open>np.clip(a, lo, hi)\<close> is \<^verbatim>\<open>np.minimum(hi, np.maximum(a, lo))\<close>.\<close>

definition fclip :: "real \<Rightarrow> real \<Rightarrow> fval \<Rightarrow> fval" where
  "fclip lo hi x = fminimum (Fin hi) (fmaximum x (Fin lo))"

text \<open>
  \<^verbatim>\<open>np.isclose(a, b, rtol, atol)\<close> for a finite \<^verbatim>\<open>b\<close>: \<^verbatim>\<open>|a - b| <= atol + rtol * |b|\<close>
  for a finite \<^verbatim>\<open>a\<close>, false otherwise.
\<close>

fun isclose :: "fval \<Rightarrow> real \<Rightarrow> real \<Rightarrow> real \<Rightarrow> bool" where
  "isclose (Fin a) b rtol atol = (\<bar>a - b\<bar> \<le> atol + rtol * \<bar>b\<bar>)"
| "isclose PInf b rtol atol = False"
| "isclose NInf b rtol atol = False"
| "isclose NaN b rtol atol = False"

subsection \<open>Reductions\<close>

primrec np_sum :: "fval list \<Rightarrow> fval" where
  "np_sum [] = Fin 0"
| "np_sum (x # xs) = fadd x (np_sum xs)"

text \<open>\<^verbatim>\<open>np.mean\<close> of an empty array is \<^verbatim>\<open>nan\<close> (with a warning, not an exception).\<close>

definition np_mean :: "fval list \<Rightarrow> fval" where
  "np_mean xs = (if xs = [] then NaN else fdiv (np_sum xs) (Fin (real (length xs))))"

definition np_clip :: "fval list \<Rightarrow> real \<Rightarrow> real \<Rightarrow> fval list" where
  "np_clip xs lo hi = map (fclip lo hi) xs"

subsection \<open>Losses on one-dimensional arrays\<close>

definition bce_elem :: "fval \<Rightarrow> fval \<Rightarrow> fval" where
  "bce_elem t p =
     fneg (fadd (fmul t (flog p)) (fmul (fsub (Fin 1) t) (flog (fsub (Fin 1) p))))"

definition binary_cross_entropy :: "fval list \<Rightarrow> fval list \<Rightarrow> real \<Rightarrow> error + fval" where
  "binary_cross_entropy y_true y_pred epsilon =
     (if length y_true \<noteq> length y_pred
      then Inl (ValueError ''Input arrays must have the same length.'')
      else let y_pred' = np_clip y_pred epsilon (1 - epsilon);
               bce_loss = map2 bce_elem y_true y_pred'
           in Inr (np_mean bce_loss))"

definition bcfe_elem :: "real \<Rightarrow> real \<Rightarrow> fval \<Rightarrow> fval \<Rightarrow> fval" where
  "bcfe_elem gamma alpha t p =
     fneg (fadd
       (fmul (fmul (fmul (Fin alpha) (fpow (fsub (Fin 1) p) gamma)) t) (flog p))
       (fmul (fmul (fmul (Fin (1 - alpha)) (fpow p gamma)) (fsub (Fin 1) t))
             (flog (fsub (Fin 1) p))))"

definition binary_focal_cross_entropy ::
  "fval list \<Rightarrow> fval list \<Rightarrow> real \<Rightarrow> real \<Rightarrow> real \<Rightarrow> error + fval" where
  "binary_focal_cross_entropy y_true y_pred gamma alpha epsilon =
     (if length y_true \<noteq> length y_pred
      then Inl (ValueError ''Input arrays must have the same length.'')
      else let y_pred' = np_clip y_pred epsilon (1 - epsilon);
               bcfe_loss = map2 (bcfe_elem gamma alpha) y_true y_pred'
           in Inr (np_mean bcfe_loss))"

definition hinge_elem :: "fval \<Rightarrow> fval \<Rightarrow> fval" where
  "hinge_elem t p = fmaximum (Fin 0) (fsub (Fin 1) (fmul t p))"

definition hinge_loss :: "fval list \<Rightarrow> fval list \<Rightarrow> error + fval" where
  "hinge_loss y_true y_pred =
     (if length y_true \<noteq> length y_pred
      then Inl (ValueError ''Length of predicted and actual array must be same.'')
      else if list_ex (\<lambda>t. fne t (Fin (- 1)) \<and> fne t (Fin 1)) y_true
      then Inl (ValueError ''y_true can have values -1 or 1 only.'')
      else let hinge_losses = map2 hinge_elem y_true y_pred
           in Inr (np_mean hinge_losses))"

text \<open>\<^verbatim>\<open>np.where(c, a, b)\<close>: element-wise, \<^verbatim>\<open>a\<close> where \<^verbatim>\<open>c\<close> holds and \<^verbatim>\<open>b\<close> elsewhere.\<close>

definition np_where :: "bool list \<Rightarrow> 'a list \<Rightarrow> 'a list \<Rightarrow> 'a list" where
  "np_where c a b = map (\<lambda>(c, a, b). if c then a else b) (zip c (zip a b))"

definition huber_mse_elem :: "fval \<Rightarrow> fval \<Rightarrow> fval" where
  "huber_mse_elem t p = fmul (Fin 0.5) (fsquare (fsub t p))"

definition huber_mae_elem :: "real \<Rightarrow> fval \<Rightarrow> fval \<Rightarrow> fval" where
  "huber_mae_elem delta t p =
     fmul (Fin delta) (fsub (fabs (fsub t p)) (Fin (0.5 * delta)))"

definition huber_cond :: "real \<Rightarrow> fval \<Rightarrow> fval \<Rightarrow> bool" where
  "huber_cond delta t p = fle (fabs (fsub t p)) (Fin delta)"

definition huber_loss :: "fval list \<Rightarrow> fval list \<Rightarrow> real \<Rightarrow> error + fval" where
  "huber_loss y_true y_pred delta =
     (if length y_true \<noteq> length y_pred
      then Inl (ValueError ''Input arrays must have the same length.'')
      else let huber_mse = map2 huber_mse_elem y_true y_pred;
               huber_mae = map2 (huber_mae_elem delta) y_true y_pred
           in Inr (np_mean (np_where (map2 (huber_cond delta) y_true y_pred)
                              huber_mse huber_mae)))"

definition mean_squared_error :: "fval list \<Rightarrow> fval list \<Rightarrow> error + fval" where
  "mean_squared_error y_true y_pred =
     (if length y_true \<noteq> length y_pred
      then Inl (ValueError ''Input arrays must have the same length.'')
      else let squared_errors = map2 (\<lambda>t p. fsquare (fsub t p)) y_true y_pred
           in Inr (np_mean squared_errors))"

definition mean_absolute_error :: "fval list \<Rightarrow> fval list \<Rightarrow> error + fval" where
  "mean_absolute_error y_true y_pred =
     (if length y_true \<noteq> length y_pred
      then Inl (ValueError ''Input arrays must have the same length.'')
      else Inr (np_mean (map2 (\<lambda>t p. fabs (fsub t p)) y_true y_pred)))"

definition mean_squared_logarithmic_error :: "fval list \<Rightarrow> fval list \<Rightarrow> error + fval" where
  "mean_squared_logarithmic_error y_true y_pred =
     (if length y_true \<noteq> length y_pred
      then Inl (ValueError ''Input arrays must have the same length.'')
      else let squared_logarithmic_errors =
                 map2 (\<lambda>t p. fsquare (fsub (flog1p t) (flog1p p))) y_true y_pred
           in Inr (np_mean squared_logarithmic_errors))"

definition mape_where :: "real \<Rightarrow> fval \<Rightarrow> fval" where
  "mape_where epsilon t = (if feq t (Fin 0) then Fin epsilon else t)"

definition mean_absolute_percentage_error ::
  "fval list \<Rightarrow> fval list \<Rightarrow> real \<Rightarrow> error + fval" where
  "mean_absolute_percentage_error y_true y_pred epsilon =
     (if length y_true \<noteq> length y_pred
      then Inl (ValueError ''The length of the two arrays should be the same.'')
      else let y_true' = map (mape_where epsilon) y_true;
               absolute_percentage_diff =
                 map2 (\<lambda>t p. fabs (fdiv (fsub t p) t)) y_true' y_pred
           in Inr (np_mean absolute_percentage_diff))"

subsection \<open>Arrays of two and three dimensions\<close>

record 'a array2 =
  shape2 :: "nat \<times> nat"
  rows :: "'a list list"

record 'a array3 =
  shape3 :: "nat \<times> nat \<times> nat"
  planes :: "'a list list list"

definition wf2 :: "'a array2 \<Rightarrow> bool" where
  "wf2 a = (length (rows a) = fst (shape2 a) \<and>
            list_all (\<lambda>r. length r = snd (shape2 a)) (rows a))"

definition wf3 :: "'a array3 \<Rightarrow> bool" where
  "wf3 a = (length (planes a) = fst (shape3 a) \<and>
            list_all (\<lambda>p. length p = fst (snd (shape3 a)) \<and>
                          list_all (\<lambda>r. length r = snd (snd (shape3 a))) p) (planes a))"

subsection \<open>Categorical cross-entropy\<close>

definition categorical_cross_entropy ::
  "fval array2 \<Rightarrow> fval array2 \<Rightarrow> real \<Rightarrow> error + fval" where
  "categorical_cross_entropy y_true y_pred epsilon =
     (if shape2 y_true \<noteq> shape2 y_pred
      then Inl (ValueError ''Input arrays must have the same shape.'')
      else if list_ex (list_ex (\<lambda>t. fne t (Fin 0) \<and> fne t (Fin 1))) (rows y_true)
              \<or> list_ex (\<lambda>r. fne (np_sum r) (Fin 1)) (rows y_true)
      then Inl (ValueError ''y_true must be one-hot encoded.'')
      else if \<not> list_all (\<lambda>r. isclose (np_sum r) 1 epsilon epsilon) (rows y_pred)
      then Inl (ValueError ''Predicted probabilities must sum to approximately 1.'')
      else let y_pred' = map (\<lambda>r. np_clip r epsilon 1) (rows y_pred)
           in Inr (fneg (np_sum (concat
                (map2 (map2 (\<lambda>t p. fmul t (flog p))) (rows y_true) y_pred')))))"

subsection \<open>Perplexity\<close>

text \<open>\<^verbatim>\<open>np.max\<close> of an empty array raises \<^verbatim>\<open>ValueError\<close>.\<close>

fun np_max :: "int list \<Rightarrow> error + int" where
  "np_max [] =
     Inl (ValueError ''zero-size array to reduction operation maximum which has no identity'')"
| "np_max (x # xs) = Inr (fold max xs x)"

text \<open>
  \<^verbatim>\<open>np.eye(n)[word]\<close>: row \<^verbatim>\<open>word\<close> of the identity matrix. A negative index counts from
  the end; an index outside \<^verbatim>\<open>-n .. n-1\<close> raises \<^verbatim>\<open>IndexError\<close>.
\<close>

definition np_eye_row :: "nat \<Rightarrow> int \<Rightarrow> error + fval list" where
  "np_eye_row n word =
     (if - int n \<le> word \<and> word < int n
      then let i = nat (if word < 0 then word + int n else word)
           in Inr (map (\<lambda>j. if j = i then Fin 1 else Fin 0) [0..<n])
      else Inl (IndexError word n))"

text \<open>A list comprehension whose body may raise: the first exception ends it.\<close>

fun map_err :: "('a \<Rightarrow> error + 'b) \<Rightarrow> 'a list \<Rightarrow> error + 'b list" where
  "map_err f [] = Inr []"
| "map_err f (x # xs) =
     (case f x of
        Inl e \<Rightarrow> Inl e
      | Inr y \<Rightarrow> (case map_err f xs of Inl e \<Rightarrow> Inl e | Inr ys \<Rightarrow> Inr (y # ys)))"

definition perplexity_loss :: "int array2 \<Rightarrow> fval array3 \<Rightarrow> real \<Rightarrow> error + fval" where
  "perplexity_loss y_true y_pred epsilon =
     (let vocab_size = snd (snd (shape3 y_pred)) in
      if fst (shape2 y_true) \<noteq> fst (shape3 y_pred)
      then Inl (ValueError ''Batch size of y_true and y_pred must be equal.'')
      else if snd (shape2 y_true) \<noteq> fst (snd (shape3 y_pred))
      then Inl (ValueError ''Sentence length of y_true and y_pred must be equal.'')
      else (case np_max (concat (rows y_true)) of
        Inl e \<Rightarrow> Inl e
      | Inr mx \<Rightarrow>
          (if mx > int vocab_size
           then Inl (ValueError ''Label value must not be greater than vocabulary size.'')
           else (case map_err (map_err (np_eye_row vocab_size)) (rows y_true) of
             Inl e \<Rightarrow> Inl e
           | Inr filter_matrix \<Rightarrow>
               (let true_class_pred =
                      map2 (map2 (\<lambda>p f. fclip epsilon 1 (np_sum (map2 fmul p f))))
                           (planes y_pred) filter_matrix;
                    perp_losses =
                      map (\<lambda>s. fexp (fneg (np_mean (map flog s)))) true_class_pred
                in Inr (np_mean perp_losses))))))"

subsection \<open>Contrastive loss\<close>

text \<open>\<^verbatim>\<open>np.subtract.reduce\<close> along the pair axis: the first vector minus the others.\<close>

definition subtract_reduce :: "fval list list \<Rightarrow> fval list" where
  "subtract_reduce p = (case p of [] \<Rightarrow> [] | r # rs \<Rightarrow> foldl (map2 fsub) r rs)"

text \<open>\<^verbatim>\<open>np.linalg.norm\<close> along an axis: the square root of the sum of the squares.\<close>

definition linalg_norm :: "fval list \<Rightarrow> fval" where
  "linalg_norm x = fsqrt (np_sum (map fsquare x))"

definition astype_bool :: "fval \<Rightarrow> bool" where
  "astype_bool t = (t \<noteq> Fin 0)"

text \<open>\<^verbatim>\<open>a[mask]\<close>: the entries of \<^verbatim>\<open>a\<close> where the mask is true.\<close>

definition mask_select :: "'a list \<Rightarrow> bool list \<Rightarrow> 'a list" where
  "mask_select a msk = map fst (filter snd (zip a msk))"

definition contrastive_loss :: "fval array3 \<Rightarrow> fval list \<Rightarrow> real \<Rightarrow> error + fval" where
  "contrastive_loss inputs target m =
     (if fst (shape3 inputs) \<noteq> length target
      then Inl (ValueError ''batch size of inputs and target parameter must be equal.'')
      else if fst (snd (shape3 inputs)) \<noteq> 2
      then Inl (ValueError ''inputs shape must be equal to (batch_size, 2, n)'')
      else if list_ex (\<lambda>t. fne t (Fin 1) \<and> fne t (Fin 0)) target
      then Inl (ValueError ''target values must be either 0 or 1.'')
      else let euclidean_dist = map (\<lambda>p. linalg_norm (subtract_reduce p)) (planes inputs);
               error_similar =
                 np_sum (mask_select euclidean_dist (map (\<lambda>t. \<not> astype_bool t) target));
               error_dissimilar =
                 np_sum (map (\<lambda>d. fmaximum (Fin 0) (fsub (Fin m) d))
                             (mask_select euclidean_dist (map astype_bool target)))
           in Inr (fadd error_similar error_dissimilar))"

subsection \<open>The functions on a store of arrays\<close>

text \<open>
  Python passes arrays by reference, so whether a function leaves its arguments alone is
  a fact about a store. The store holds the arrays by dimension; a reference is an index
  into its region. Every numpy operation the module uses (\<^verbatim>\<open>np.clip\<close>, \<^verbatim>\<open>np.where\<close>,
  the arithmetic operators, \<^verbatim>\<open>np.array\<close>) returns a new array, and an assignment binds
  the local name to it: the array is appended to the store and later reads go through
  the new reference. The module has no in-place operation (\<^verbatim>\<open>+=\<close>, \<^verbatim>\<open>out=\<close>, an
  indexed assignment), so no store cell is ever overwritten. The arrays inside an
  expression that are never bound to a name stay values. The scalar a function returns
  is a value, not a reference.
\<close>

record heap =
  vecs :: "fval list list"
  mats :: "fval array2 list"
  cubes :: "fval array3 list"
  labels :: "int array2 list"

definition new_vec :: "fval list \<Rightarrow> heap \<Rightarrow> nat \<times> heap" where
  "new_vec v h = (length (vecs h), h\<lparr>vecs := vecs h @ [v]\<rparr>)"

definition new_mat :: "fval array2 \<Rightarrow> heap \<Rightarrow> nat \<times> heap" where
  "new_mat a h = (length (mats h), h\<lparr>mats := mats h @ [a]\<rparr>)"

definition new_cube :: "fval array3 \<Rightarrow> heap \<Rightarrow> nat \<times> heap" where
  "new_cube a h = (length (cubes h), h\<lparr>cubes := cubes h @ [a]\<rparr>)"

definition unchanged :: "heap \<Rightarrow> heap \<Rightarrow> bool" where
  "unchanged h h' =
     (take (length (vecs h)) (vecs h') = vecs h
      \<and> take (length (mats h)) (mats h') = mats h
      \<and> take (length (cubes h)) (cubes h') = cubes h
      \<and> take (length (labels h)) (labels h') = labels h)"

definition binary_cross_entropy_st ::
  "heap \<Rightarrow> nat \<Rightarrow> nat \<Rightarrow> real \<Rightarrow> (error + fval) \<times> heap" where
  "binary_cross_entropy_st h y_true y_pred epsilon =
     (if length (vecs h ! y_true) \<noteq> length (vecs h ! y_pred)
      then (Inl (ValueError ''Input arrays must have the same length.''), h)
      else let (y_pred', h1) = new_vec (np_clip (vecs h ! y_pred) epsilon (1 - epsilon)) h;
               (bce_loss, h2) = new_vec (map2 bce_elem (vecs h1 ! y_true) (vecs h1 ! y_pred')) h1
           in (Inr (np_mean (vecs h2 ! bce_loss)), h2))"

definition binary_focal_cross_entropy_st ::
  "heap \<Rightarrow> nat \<Rightarrow> nat \<Rightarrow> real \<Rightarrow> real \<Rightarrow> real \<Rightarrow> (error + fval) \<times> heap" where
  "binary_focal_cross_entropy_st h y_true y_pred gamma alpha epsilon =
     (if length (vecs h ! y_true) \<noteq> length (vecs h ! y_pred)
      then (Inl (ValueError ''Input arrays must have the same length.''), h)
      else let (y_pred', h1) = new_vec (np_clip (vecs h ! y_pred) epsilon (1 - epsilon)) h;
               (bcfe_loss, h2) =
                 new_vec (map2 (bcfe_elem gamma alpha) (vecs h1 ! y_true) (vecs h1 ! y_pred')) h1
           in (Inr (np_mean (vecs h2 ! bcfe_loss)), h2))"

definition categorical_cross_entropy_st ::
  "heap \<Rightarrow> nat \<Rightarrow> nat \<Rightarrow> real \<Rightarrow> (error + fval) \<times> heap" where
  "categorical_cross_entropy_st h y_true y_pred epsilon =
     (if shape2 (mats h ! y_true) \<noteq> shape2 (mats h ! y_pred)
      then (Inl (ValueError ''Input arrays must have the same shape.''), h)
      else if list_ex (list_ex (\<lambda>t. fne t (Fin 0) \<and> fne t (Fin 1))) (rows (mats h ! y_true))
              \<or> list_ex (\<lambda>r. fne (np_sum r) (Fin 1)) (rows (mats h ! y_true))
      then (Inl (ValueError ''y_true must be one-hot encoded.''), h)
      else if \<not> list_all (\<lambda>r. isclose (np_sum r) 1 epsilon epsilon) (rows (mats h ! y_pred))
      then (Inl (ValueError ''Predicted probabilities must sum to approximately 1.''), h)
      else let (y_pred', h1) =
                 new_mat \<lparr>shape2 = shape2 (mats h ! y_pred),
                          rows = map (\<lambda>r. np_clip r epsilon 1) (rows (mats h ! y_pred))\<rparr> h
           in (Inr (fneg (np_sum (concat
                 (map2 (map2 (\<lambda>t p. fmul t (flog p)))
                    (rows (mats h1 ! y_true)) (rows (mats h1 ! y_pred')))))), h1))"

definition hinge_loss_st :: "heap \<Rightarrow> nat \<Rightarrow> nat \<Rightarrow> (error + fval) \<times> heap" where
  "hinge_loss_st h y_true y_pred =
     (if length (vecs h ! y_true) \<noteq> length (vecs h ! y_pred)
      then (Inl (ValueError ''Length of predicted and actual array must be same.''), h)
      else if list_ex (\<lambda>t. fne t (Fin (- 1)) \<and> fne t (Fin 1)) (vecs h ! y_true)
      then (Inl (ValueError ''y_true can have values -1 or 1 only.''), h)
      else let (hinge_losses, h1) =
                 new_vec (map2 hinge_elem (vecs h ! y_true) (vecs h ! y_pred)) h
           in (Inr (np_mean (vecs h1 ! hinge_losses)), h1))"

definition huber_loss_st :: "heap \<Rightarrow> nat \<Rightarrow> nat \<Rightarrow> real \<Rightarrow> (error + fval) \<times> heap" where
  "huber_loss_st h y_true y_pred delta =
     (if length (vecs h ! y_true) \<noteq> length (vecs h ! y_pred)
      then (Inl (ValueError ''Input arrays must have the same length.''), h)
      else let (huber_mse, h1) =
                 new_vec (map2 huber_mse_elem (vecs h ! y_true) (vecs h ! y_pred)) h;
               (huber_mae, h2) =
                 new_vec (map2 (huber_mae_elem delta) (vecs h1 ! y_true) (vecs h1 ! y_pred)) h1
           in (Inr (np_mean (np_where
                      (map2 (huber_cond delta) (vecs h2 ! y_true) (vecs h2 ! y_pred))
                      (vecs h2 ! huber_mse) (vecs h2 ! huber_mae))), h2))"

definition mean_squared_error_st :: "heap \<Rightarrow> nat \<Rightarrow> nat \<Rightarrow> (error + fval) \<times> heap" where
  "mean_squared_error_st h y_true y_pred =
     (if length (vecs h ! y_true) \<noteq> length (vecs h ! y_pred)
      then (Inl (ValueError ''Input arrays must have the same length.''), h)
      else let (squared_errors, h1) =
                 new_vec (map2 (\<lambda>t p. fsquare (fsub t p)) (vecs h ! y_true) (vecs h ! y_pred)) h
           in (Inr (np_mean (vecs h1 ! squared_errors)), h1))"

definition mean_absolute_error_st :: "heap \<Rightarrow> nat \<Rightarrow> nat \<Rightarrow> (error + fval) \<times> heap" where
  "mean_absolute_error_st h y_true y_pred =
     (if length (vecs h ! y_true) \<noteq> length (vecs h ! y_pred)
      then (Inl (ValueError ''Input arrays must have the same length.''), h)
      else (Inr (np_mean (map2 (\<lambda>t p. fabs (fsub t p)) (vecs h ! y_true) (vecs h ! y_pred))), h))"

definition mean_squared_logarithmic_error_st ::
  "heap \<Rightarrow> nat \<Rightarrow> nat \<Rightarrow> (error + fval) \<times> heap" where
  "mean_squared_logarithmic_error_st h y_true y_pred =
     (if length (vecs h ! y_true) \<noteq> length (vecs h ! y_pred)
      then (Inl (ValueError ''Input arrays must have the same length.''), h)
      else let (squared_logarithmic_errors, h1) =
                 new_vec (map2 (\<lambda>t p. fsquare (fsub (flog1p t) (flog1p p)))
                            (vecs h ! y_true) (vecs h ! y_pred)) h
           in (Inr (np_mean (vecs h1 ! squared_logarithmic_errors)), h1))"

definition mean_absolute_percentage_error_st ::
  "heap \<Rightarrow> nat \<Rightarrow> nat \<Rightarrow> real \<Rightarrow> (error + fval) \<times> heap" where
  "mean_absolute_percentage_error_st h y_true y_pred epsilon =
     (if length (vecs h ! y_true) \<noteq> length (vecs h ! y_pred)
      then (Inl (ValueError ''The length of the two arrays should be the same.''), h)
      else let (y_true', h1) = new_vec (map (mape_where epsilon) (vecs h ! y_true)) h;
               (absolute_percentage_diff, h2) =
                 new_vec (map2 (\<lambda>t p. fabs (fdiv (fsub t p) t))
                            (vecs h1 ! y_true') (vecs h1 ! y_pred)) h1
           in (Inr (np_mean (vecs h2 ! absolute_percentage_diff)), h2))"


definition perplexity_loss_st ::
  "heap \<Rightarrow> nat \<Rightarrow> nat \<Rightarrow> real \<Rightarrow> (error + fval) \<times> heap" where
  "perplexity_loss_st h y_true y_pred epsilon =
     (let vocab_size = snd (snd (shape3 (cubes h ! y_pred))) in
      if fst (shape2 (labels h ! y_true)) \<noteq> fst (shape3 (cubes h ! y_pred))
      then (Inl (ValueError ''Batch size of y_true and y_pred must be equal.''), h)
      else if snd (shape2 (labels h ! y_true)) \<noteq> fst (snd (shape3 (cubes h ! y_pred)))
      then (Inl (ValueError ''Sentence length of y_true and y_pred must be equal.''), h)
      else (case np_max (concat (rows (labels h ! y_true))) of
        Inl e \<Rightarrow> (Inl e, h)
      | Inr mx \<Rightarrow>
          (if mx > int vocab_size
           then (Inl (ValueError ''Label value must not be greater than vocabulary size.''), h)
           else (case map_err (map_err (np_eye_row vocab_size)) (rows (labels h ! y_true)) of
             Inl e \<Rightarrow> (Inl e, h)
           | Inr fm \<Rightarrow>
               (let (filter_matrix, h1) =
                      new_cube \<lparr>shape3 = (fst (shape2 (labels h ! y_true)),
                                           snd (shape2 (labels h ! y_true)), vocab_size),
                                planes = fm\<rparr> h;
                    (true_class_pred, h2) =
                      new_mat \<lparr>shape2 = shape2 (labels h1 ! y_true),
                               rows = map2 (map2 (\<lambda>p f. fclip epsilon 1 (np_sum (map2 fmul p f))))
                                        (planes (cubes h1 ! y_pred))
                                        (planes (cubes h1 ! filter_matrix))\<rparr> h1;
                    (perp_losses, h3) =
                      new_vec (map (\<lambda>s. fexp (fneg (np_mean (map flog s))))
                                 (rows (mats h2 ! true_class_pred))) h2
                in (Inr (np_mean (vecs h3 ! perp_losses)), h3))))))"

definition contrastive_loss_st ::
  "heap \<Rightarrow> nat \<Rightarrow> nat \<Rightarrow> real \<Rightarrow> (error + fval) \<times> heap" where
  "contrastive_loss_st h inputs target m =
     (if fst (shape3 (cubes h ! inputs)) \<noteq> length (vecs h ! target)
      then (Inl (ValueError ''batch size of inputs and target parameter must be equal.''), h)
      else if fst (snd (shape3 (cubes h ! inputs))) \<noteq> 2
      then (Inl (ValueError ''inputs shape must be equal to (batch_size, 2, n)''), h)
      else if list_ex (\<lambda>t. fne t (Fin 1) \<and> fne t (Fin 0)) (vecs h ! target)
      then (Inl (ValueError ''target values must be either 0 or 1.''), h)
      else let (euclidean_dist, h1) =
                 new_vec (map (\<lambda>p. linalg_norm (subtract_reduce p)) (planes (cubes h ! inputs))) h;
               error_similar =
                 np_sum (mask_select (vecs h1 ! euclidean_dist)
                           (map (\<lambda>t. \<not> astype_bool t) (vecs h1 ! target)));
               error_dissimilar =
                 np_sum (map (\<lambda>d. fmaximum (Fin 0) (fsub (Fin m) d))
                           (mask_select (vecs h1 ! euclidean_dist)
                              (map astype_bool (vecs h1 ! target))))
           in (Inr (fadd error_similar error_dissimilar), h1))"

subsection \<open>The formulas of the specification\<close>

text \<open>
  The Huber loss of one element as the specification words it:
  \<^verbatim>\<open>0.5 * e^2\<close> if \<^verbatim>\<open>|e| <= delta\<close>, else \<^verbatim>\<open>delta * |e| - 0.5 * delta^2\<close>.
\<close>

definition huber_piecewise :: "real \<Rightarrow> real \<Rightarrow> real \<Rightarrow> real" where
  "huber_piecewise delta y p =
     (if \<bar>y - p\<bar> \<le> delta then 0.5 * (y - p)\<^sup>2 else delta * \<bar>y - p\<bar> - 0.5 * delta\<^sup>2)"

text \<open>
  The contrastive loss as the specification words it: the Euclidean distance of each
  pair, summed over the pairs with target 0, plus \<^verbatim>\<open>max(0, m - d)\<close> summed over the
  pairs with target 1.
\<close>

definition euclid :: "real list \<Rightarrow> real list \<Rightarrow> real" where
  "euclid a b = sqrt (sum_list (map2 (\<lambda>x y. (x - y)\<^sup>2) a b))"

definition contrastive_spec ::
  "(real list \<times> real list) list \<Rightarrow> real list \<Rightarrow> real \<Rightarrow> real" where
  "contrastive_spec pairs ts m =
     sum_list (map (\<lambda>(ab, t). euclid (fst ab) (snd ab))
                   (filter (\<lambda>(ab, t). t = 0) (zip pairs ts)))
   + sum_list (map (\<lambda>(ab, t). max 0 (m - euclid (fst ab) (snd ab)))
                   (filter (\<lambda>(ab, t). t = 1) (zip pairs ts)))"

text \<open>One entry of the \<^verbatim>\<open>inputs\<close> array: a pair of finite vectors.\<close>

definition pair_plane :: "real list \<times> real list \<Rightarrow> fval list list" where
  "pair_plane ab = [map Fin (fst ab), map Fin (snd ab)]"

subsection \<open>The arrays of the docstring examples\<close>

definition example_pairs :: "(real list \<times> real list) list" where
  "example_pairs =
     [([0.06796051, 0.86319405, 0.83875762, 0.4246106, 0.4142061],
       [0.1648123, 0.23396954, 0.26760326, 0.90300768, 0.82789254]),
      ([0.73989664, 0.929347, 0.37955765, 0.17692685, 0.09868801],
       [0.23727054, 0.41889803, 0.44162983, 0.9783071, 0.06199906])]"

definition example_inputs :: "fval array3" where
  "example_inputs = \<lparr>shape3 = (2, 2, 5), planes = map pair_plane example_pairs\<rparr>"

definition example_y_pred :: "fval array3" where
  "example_y_pred = \<lparr>shape3 = (2, 2, 5), planes = map (map (map Fin))
     [[[0.28, 0.19, 0.21, 0.15, 0.15], [0.24, 0.19, 0.09, 0.18, 0.27]],
      [[0.03, 0.26, 0.21, 0.18, 0.30], [0.28, 0.10, 0.33, 0.15, 0.12]]]\<rparr>"

text \<open>A store with two one-dimensional arrays.\<close>

definition example_heap :: heap where
  "example_heap = \<lparr>vecs = [[Fin 0, Fin 1], [Fin 3, Fin (- 1)]], mats = [], cubes = [],
                    labels = []\<rparr>"

section \<open>Properties\<close>

subsection \<open>Finite arrays\<close>

lemma np_sum_Fin: "np_sum (map Fin xs) = Fin (sum_list xs)"
  by (induction xs) simp_all

lemma np_mean_Fin: "xs \<noteq> [] \<Longrightarrow> np_mean (map Fin xs) = Fin (sum_list xs / real (length xs))"
  by (simp add: np_mean_def np_sum_Fin)

lemma map2_Fin:
  assumes "\<And>y p. f (Fin y) (Fin p) = Fin (g y p)"
  shows "map2 f (map Fin ys) (map Fin ps) = map Fin (map2 g ys ps)"
  by (auto simp: zip_map_map assms)

lemma fne_Fin: "fne t (Fin a) = (t \<noteq> Fin a)"
  by (auto simp: fne_def feq_def)

lemma fclip_Fin: "lo \<le> hi \<Longrightarrow> fclip lo hi (Fin x) = Fin (min hi (max x lo))"
  by (auto simp: fclip_def fminimum_def fmaximum_def min_def max_def)

subsection \<open>Huber loss\<close>

lemma huber_elem_Fin:
  "(if huber_cond delta (Fin y) (Fin p) then huber_mse_elem (Fin y) (Fin p)
    else huber_mae_elem delta (Fin y) (Fin p)) = Fin (huber_piecewise delta y p)"
  by (simp add: huber_cond_def huber_mse_elem_def huber_mae_elem_def huber_piecewise_def
      fsub_def fsquare_def power2_eq_square algebra_simps)

lemma np_where_huber_Fin:
  "length ys = length ps \<Longrightarrow>
   np_where (map2 (huber_cond delta) (map Fin ys) (map Fin ps))
            (map2 huber_mse_elem (map Fin ys) (map Fin ps))
            (map2 (huber_mae_elem delta) (map Fin ys) (map Fin ps))
   = map Fin (map2 (huber_piecewise delta) ys ps)"
proof (induction ys ps rule: list_induct2)
  case Nil
  then show ?case by (simp add: np_where_def)
next
  case (Cons y ys p ps)
  then show ?case
    using huber_elem_Fin [of delta y p] by (simp add: np_where_def)
qed

lemma huber_loss_Fin:
  "length ys = length ps \<Longrightarrow>
   huber_loss (map Fin ys) (map Fin ps) delta =
     Inr (np_mean (map Fin (map2 (huber_piecewise delta) ys ps)))"
  by (simp add: huber_loss_def np_where_huber_Fin del: map_map)

lemma huber_branches_meet:
  assumes h: "\<bar>y - p\<bar> = delta"
  shows "huber_mse_elem (Fin y) (Fin p) = huber_mae_elem delta (Fin y) (Fin p)"
proof -
  have "(y - p) * (y - p) = \<bar>y - p\<bar> * \<bar>y - p\<bar>" by simp
  then have "(y - p) * (y - p) = delta * delta" using h by simp
  then show ?thesis
    using h by (simp add: huber_mse_elem_def huber_mae_elem_def fsub_def fsquare_def algebra_simps)
qed

lemma huber_piecewise_neg:
  assumes "delta < 0"
  shows "huber_piecewise delta y p = delta * \<bar>y - p\<bar> - 0.5 * delta\<^sup>2"
proof -
  have "\<not> \<bar>y - p\<bar> \<le> delta" using assms by linarith
  then show ?thesis by (simp add: huber_piecewise_def)
qed

lemma huber_piecewise_zero: "huber_piecewise 0 y p = 0"
  by (simp add: huber_piecewise_def)

text \<open>
  C3. For equal-length arrays of real numbers and every \<open>delta\<close>, \<open>huber_loss\<close> returns
  the mean over the elements of the piecewise value \<open>0.5 * (y_true - y_pred)\<^sup>2\<close> when
  \<open>\<bar>y_true - y_pred\<bar> \<le> delta\<close> and \<open>delta * \<bar>y_true - y_pred\<bar> - 0.5 * delta\<^sup>2\<close>
  otherwise (for non-empty arrays the sum divided by the length; the mean of an empty
  array is \<^verbatim>\<open>nan\<close>), and the two branches agree where \<open>\<bar>y_true - y_pred\<bar> = delta\<close>.
\<close>

theorem huber_loss_piecewise_mean:
  "length ys = length ps \<Longrightarrow>
     huber_loss (map Fin ys) (map Fin ps) delta =
       Inr (np_mean (map Fin (map2 (huber_piecewise delta) ys ps)))
   \<and> (ys \<noteq> [] \<longrightarrow> huber_loss (map Fin ys) (map Fin ps) delta =
       Inr (Fin (sum_list (map2 (huber_piecewise delta) ys ps) / real (length ys))))
   \<and> (\<forall>y p. \<bar>y - p\<bar> = delta \<longrightarrow>
         huber_mse_elem (Fin y) (Fin p) = huber_mae_elem delta (Fin y) (Fin p))"
proof -
  assume len: "length ys = length ps"
  have a: "huber_loss (map Fin ys) (map Fin ps) delta =
       Inr (np_mean (map Fin (map2 (huber_piecewise delta) ys ps)))"
    using len by (rule huber_loss_Fin)
  have b: "huber_loss (map Fin ys) (map Fin ps) delta =
       Inr (Fin (sum_list (map2 (huber_piecewise delta) ys ps) / real (length ys)))"
    if ne: "ys \<noteq> []"
  proof -
    have ne': "map2 (huber_piecewise delta) ys ps \<noteq> []"
      using len ne by (cases ys; cases ps) auto
    have n: "length (map2 (huber_piecewise delta) ys ps) = length ys"
      using len by simp
    show ?thesis by (simp only: a np_mean_Fin [OF ne'] n)
  qed
  have c: "\<forall>y p. \<bar>y - p\<bar> = delta \<longrightarrow>
         huber_mse_elem (Fin y) (Fin p) = huber_mae_elem delta (Fin y) (Fin p)"
    by (simp add: huber_branches_meet)
  from a b c show ?thesis by blast
qed

theorem huber_loss_piecewise_mean_witness:
  "length [0.9, 10.0, 2.0, 1.0, 5.2 :: real] = length [0.8, 2.1, 2.9, 4.2, 5.2 :: real]
   \<and> huber_loss (map Fin [0.9, 10.0, 2.0, 1.0, 5.2]) (map Fin [0.8, 2.1, 2.9, 4.2, 5.2]) 1
       = Inr (Fin 2.102)
   \<and> huber_mse_elem (Fin 3) (Fin 2) = huber_mae_elem 1 (Fin 3) (Fin 2)"
  using huber_loss_piecewise_mean [of "[0.9, 10.0, 2.0, 1.0, 5.2]" "[0.8, 2.1, 2.9, 4.2, 5.2]" 1]
  by (simp add: huber_piecewise_def np_mean_def power2_eq_square)

text \<open>
  C9. \<open>huber_loss\<close> does not validate \<open>delta\<close>: for equal-length arrays it returns a
  value for every real \<open>delta\<close>, and on arrays of real numbers that value is the mean of
  the piecewise formula. For a negative \<open>delta\<close> the condition \<open>\<bar>e\<bar> \<le> delta\<close> never
  holds, so every element takes the linear branch; for \<open>delta = 0\<close> every element is 0.
\<close>

theorem huber_loss_any_delta:
  "(length y_true = length y_pred \<longrightarrow> (\<exists>v. huber_loss y_true y_pred delta = Inr v))
   \<and> (length ys = length ps \<longrightarrow>
        huber_loss (map Fin ys) (map Fin ps) delta =
          Inr (np_mean (map Fin (map2 (huber_piecewise delta) ys ps))))
   \<and> (length ys = length ps \<and> delta < 0 \<longrightarrow>
        huber_loss (map Fin ys) (map Fin ps) delta =
          Inr (np_mean (map Fin (map2 (\<lambda>y p. delta * \<bar>y - p\<bar> - 0.5 * delta\<^sup>2) ys ps))))
   \<and> (length ys = length ps \<longrightarrow>
        huber_loss (map Fin ys) (map Fin ps) 0 = Inr (np_mean (map Fin (map2 (\<lambda>y p. 0) ys ps))))"
proof -
  have a: "length y_true = length y_pred \<longrightarrow> (\<exists>v. huber_loss y_true y_pred delta = Inr v)"
    by (simp add: huber_loss_def Let_def)
  have b: "length ys = length ps \<longrightarrow>
        huber_loss (map Fin ys) (map Fin ps) delta =
          Inr (np_mean (map Fin (map2 (huber_piecewise delta) ys ps)))"
    using huber_loss_Fin [of ys ps delta] by blast
  have c: "length ys = length ps \<and> delta < 0 \<longrightarrow>
        huber_loss (map Fin ys) (map Fin ps) delta =
          Inr (np_mean (map Fin (map2 (\<lambda>y p. delta * \<bar>y - p\<bar> - 0.5 * delta\<^sup>2) ys ps)))"
  proof
    assume h: "length ys = length ps \<and> delta < 0"
    then have "huber_piecewise delta = (\<lambda>y p. delta * \<bar>y - p\<bar> - 0.5 * delta\<^sup>2)"
      by (intro ext) (simp add: huber_piecewise_neg)
    then show "huber_loss (map Fin ys) (map Fin ps) delta =
          Inr (np_mean (map Fin (map2 (\<lambda>y p. delta * \<bar>y - p\<bar> - 0.5 * delta\<^sup>2) ys ps)))"
      using huber_loss_Fin [of ys ps delta] h by simp
  qed
  have d: "length ys = length ps \<longrightarrow>
        huber_loss (map Fin ys) (map Fin ps) 0 = Inr (np_mean (map Fin (map2 (\<lambda>y p. 0) ys ps)))"
  proof
    assume h: "length ys = length ps"
    have "huber_piecewise 0 = (\<lambda>y p. 0)"
      by (intro ext) (simp add: huber_piecewise_zero)
    then show "huber_loss (map Fin ys) (map Fin ps) 0 =
          Inr (np_mean (map Fin (map2 (\<lambda>y p. 0) ys ps)))"
      using huber_loss_Fin [of ys ps 0] h by simp
  qed
  from a b c d show ?thesis by (intro conjI)
qed

theorem huber_loss_any_delta_witness:
  "length [Fin 1, NaN] = length [Fin 3, PInf]
   \<and> huber_loss [Fin 1, NaN] [Fin 3, PInf] (- 1) = Inr NaN
   \<and> - 1 < (0 :: real)
   \<and> huber_loss (map Fin [1]) (map Fin [3]) (- 1) = Inr (Fin (- 2.5))
   \<and> huber_loss (map Fin [1]) (map Fin [3]) 0 = Inr (Fin 0)"
  using huber_loss_any_delta [of "[Fin 1, NaN]" "[Fin 3, PInf]" "- 1" "[1]" "[3]"]
  by (simp add: np_mean_def huber_loss_def np_where_def huber_cond_def huber_mae_elem_def
      huber_mse_elem_def fsub_def fsquare_def)

subsection \<open>Validation of lengths, shapes and labels\<close>

text \<open>
  C2. Each of the nine functions that compare the lengths or the shapes of their two
  arrays raises \<^verbatim>\<open>ValueError\<close> when these differ, whatever the values in the arrays,
  and returns no result.
\<close>

theorem length_mismatch_raises:
  "(length y_true \<noteq> length y_pred \<longrightarrow>
       binary_cross_entropy y_true y_pred epsilon
         = Inl (ValueError ''Input arrays must have the same length.'')
     \<and> binary_focal_cross_entropy y_true y_pred gamma alpha epsilon
         = Inl (ValueError ''Input arrays must have the same length.'')
     \<and> hinge_loss y_true y_pred
         = Inl (ValueError ''Length of predicted and actual array must be same.'')
     \<and> huber_loss y_true y_pred delta
         = Inl (ValueError ''Input arrays must have the same length.'')
     \<and> mean_squared_error y_true y_pred
         = Inl (ValueError ''Input arrays must have the same length.'')
     \<and> mean_absolute_error y_true y_pred
         = Inl (ValueError ''Input arrays must have the same length.'')
     \<and> mean_squared_logarithmic_error y_true y_pred
         = Inl (ValueError ''Input arrays must have the same length.'')
     \<and> mean_absolute_percentage_error y_true y_pred epsilon
         = Inl (ValueError ''The length of the two arrays should be the same.''))
   \<and> (shape2 a \<noteq> shape2 b \<longrightarrow>
       categorical_cross_entropy a b epsilon
         = Inl (ValueError ''Input arrays must have the same shape.''))"
  by (simp add: binary_cross_entropy_def binary_focal_cross_entropy_def hinge_loss_def
      huber_loss_def mean_squared_error_def mean_absolute_error_def
      mean_squared_logarithmic_error_def mean_absolute_percentage_error_def
      categorical_cross_entropy_def)

theorem length_mismatch_raises_witness:
  "length (map Fin [0, 1, 1, 0, 1]) \<noteq> length (map Fin [0.3, 0.8, 0.9, 0.2])
   \<and> is_InvalidInput
        (binary_cross_entropy (map Fin [0, 1, 1, 0, 1]) (map Fin [0.3, 0.8, 0.9, 0.2]) (1 / 10 ^ 15))
   \<and> is_InvalidInput
        (mean_absolute_error (map Fin [0, 1, 1, 0, 1]) (map Fin [0.3, 0.8, 0.9, 0.2]))
   \<and> is_InvalidInput
        (categorical_cross_entropy
           \<lparr>shape2 = (2, 2), rows = [[Fin 1, Fin 0], [Fin 0, Fin 1]]\<rparr>
           \<lparr>shape2 = (2, 3), rows = [[Fin 0.9, Fin 0.1, Fin 0], [Fin 0.2, Fin 0.7, Fin 0.1]]\<rparr>
           (1 / 10 ^ 15))"
  using length_mismatch_raises [of "map Fin [0, 1, 1, 0, 1]" "map Fin [0.3, 0.8, 0.9, 0.2]"
      "1 / 10 ^ 15" _ _ _
      "\<lparr>shape2 = (2, 2), rows = [[Fin 1, Fin 0], [Fin 0, Fin 1]]\<rparr>"
      "\<lparr>shape2 = (2, 3), rows = [[Fin 0.9, Fin 0.1, Fin 0], [Fin 0.2, Fin 0.7, Fin 0.1]]\<rparr>"]
  by simp

text \<open>
  C7. With arrays of equal length, \<open>hinge_loss\<close> raises \<^verbatim>\<open>ValueError\<close> when some value of
  \<open>y_true\<close> is neither -1 nor 1; with matching batch sizes and a pair axis of size 2,
  \<open>contrastive_loss\<close> raises \<^verbatim>\<open>ValueError\<close> when some value of \<open>target\<close> is neither 0
  nor 1. No loss is returned.
\<close>

theorem label_domain_raises:
  "(length y_true = length y_pred \<and> (\<exists>t\<in>set y_true. t \<noteq> Fin (- 1) \<and> t \<noteq> Fin 1) \<longrightarrow>
      hinge_loss y_true y_pred = Inl (ValueError ''y_true can have values -1 or 1 only.''))
   \<and> (fst (shape3 inputs) = length target \<and> fst (snd (shape3 inputs)) = 2
        \<and> (\<exists>t\<in>set target. t \<noteq> Fin 0 \<and> t \<noteq> Fin 1) \<longrightarrow>
      contrastive_loss inputs target m = Inl (ValueError ''target values must be either 0 or 1.''))"
  by (auto simp: hinge_loss_def contrastive_loss_def list_ex_iff fne_Fin)

theorem label_domain_raises_witness:
  "length (map Fin [-1, 1, 10, -1, 1]) = length (map Fin [-4, -0.3, 0.7, 5, 10])
   \<and> Fin 10 \<in> set (map Fin [-1, 1, 10, -1, 1])
   \<and> hinge_loss (map Fin [-1, 1, 10, -1, 1]) (map Fin [-4, -0.3, 0.7, 5, 10])
     = Inl (ValueError ''y_true can have values -1 or 1 only.'')
   \<and> Fin 5 \<in> set (map Fin [0, 5])
   \<and> contrastive_loss example_inputs (map Fin [0, 5]) 10
     = Inl (ValueError ''target values must be either 0 or 1.'')"
  using label_domain_raises [of "map Fin [-1, 1, 10, -1, 1]" "map Fin [-4, -0.3, 0.7, 5, 10]"
      example_inputs "map Fin [0, 5]" 10]
  by (simp add: example_inputs_def)

subsection \<open>Mean squared and mean absolute error of an array with itself\<close>

text \<open>
  C6, as the code has it. For every non-empty array \<open>y\<close> of real numbers,
  \<open>mean_squared_error y y\<close> and \<open>mean_absolute_error y y\<close> are 0.
\<close>

theorem mse_mae_self_zero:
  "ys \<noteq> [] \<Longrightarrow>
     mean_squared_error (map Fin ys) (map Fin ys) = Inr (Fin 0)
   \<and> mean_absolute_error (map Fin ys) (map Fin ys) = Inr (Fin 0)"
proof -
  assume ne: "ys \<noteq> []"
  have sq: "map2 (\<lambda>t p. fsquare (fsub t p)) (map Fin ys) (map Fin ys) = map Fin (map (\<lambda>y. 0) ys)"
    by (induction ys) (simp_all add: fsub_def fsquare_def)
  have ab: "map2 (\<lambda>t p. fabs (fsub t p)) (map Fin ys) (map Fin ys) = map Fin (map (\<lambda>y. 0) ys)"
    by (induction ys) (simp_all add: fsub_def)
  have z: "sum_list (map (\<lambda>y. 0::real) ys) = 0" by (induction ys) simp_all
  have m: "np_mean (map Fin (map (\<lambda>y. 0) ys)) = Fin 0"
    using ne np_mean_Fin [of "map (\<lambda>y. 0) ys"] by (simp add: z)
  show ?thesis
    by (simp add: mean_squared_error_def mean_absolute_error_def sq ab m del: map_map)
qed

theorem mse_mae_self_zero_witness:
  "[1, 2, 3 :: real] \<noteq> []
   \<and> mean_squared_error (map Fin [1, 2, 3]) (map Fin [1, 2, 3]) = Inr (Fin 0)
   \<and> mean_absolute_error (map Fin [1, 2, 3]) (map Fin [1, 2, 3]) = Inr (Fin 0)"
  using mse_mae_self_zero [of "[1, 2, 3]"] by simp

text \<open>
  C6, as the specification states it, fails on the empty array: the mean of an empty
  array is \<^verbatim>\<open>nan\<close>, which is not 0.
\<close>

theorem mse_mae_self_empty_counterexample:
  "mean_squared_error [] [] = Inr NaN \<and> mean_squared_error [] [] \<noteq> Inr (Fin 0)
   \<and> mean_absolute_error [] [] = Inr NaN \<and> mean_absolute_error [] [] \<noteq> Inr (Fin 0)"
  by (simp add: mean_squared_error_def mean_absolute_error_def np_mean_def)

subsection \<open>Binary cross-entropies\<close>

text \<open>
  C10. \<open>binary_cross_entropy\<close> and \<open>binary_focal_cross_entropy\<close> check nothing but the
  lengths: for equal-length arrays of any values they return the mean of the element
  losses of \<open>y_true\<close> and the clipped predictions. For \<open>epsilon \<le> 1/2\<close> every clipped
  real prediction lies in \<open>[epsilon, 1 - epsilon]\<close>: one below \<open>epsilon\<close> becomes
  \<open>epsilon\<close>, one above \<open>1 - epsilon\<close> becomes \<open>1 - epsilon\<close>.
\<close>

theorem bce_no_domain_validation:
  "(length y_true = length y_pred \<longrightarrow>
      binary_cross_entropy y_true y_pred epsilon =
        Inr (np_mean (map2 bce_elem y_true (np_clip y_pred epsilon (1 - epsilon))))
    \<and> binary_focal_cross_entropy y_true y_pred gamma alpha epsilon =
        Inr (np_mean (map2 (bcfe_elem gamma alpha) y_true (np_clip y_pred epsilon (1 - epsilon)))))
   \<and> (epsilon \<le> 1 / 2 \<longrightarrow>
        (\<forall>p\<in>set (np_clip (map Fin ps) epsilon (1 - epsilon)).
            \<exists>c. p = Fin c \<and> epsilon \<le> c \<and> c \<le> 1 - epsilon))
   \<and> (epsilon \<le> 1 / 2 \<and> x < epsilon \<longrightarrow> fclip epsilon (1 - epsilon) (Fin x) = Fin epsilon)
   \<and> (epsilon \<le> 1 / 2 \<and> 1 - epsilon < x \<longrightarrow> fclip epsilon (1 - epsilon) (Fin x) = Fin (1 - epsilon))"
proof -
  have a: "length y_true = length y_pred \<longrightarrow>
      binary_cross_entropy y_true y_pred epsilon =
        Inr (np_mean (map2 bce_elem y_true (np_clip y_pred epsilon (1 - epsilon))))
    \<and> binary_focal_cross_entropy y_true y_pred gamma alpha epsilon =
        Inr (np_mean (map2 (bcfe_elem gamma alpha) y_true (np_clip y_pred epsilon (1 - epsilon))))"
    by (simp add: binary_cross_entropy_def binary_focal_cross_entropy_def)
  have b: "epsilon \<le> 1 / 2 \<longrightarrow>
        (\<forall>p\<in>set (np_clip (map Fin ps) epsilon (1 - epsilon)).
            \<exists>c. p = Fin c \<and> epsilon \<le> c \<and> c \<le> 1 - epsilon)"
  proof
    assume "epsilon \<le> 1 / 2"
    then have le: "epsilon \<le> 1 - epsilon" by simp
    show "\<forall>p\<in>set (np_clip (map Fin ps) epsilon (1 - epsilon)).
            \<exists>c. p = Fin c \<and> epsilon \<le> c \<and> c \<le> 1 - epsilon"
      using le by (auto simp: np_clip_def fclip_Fin [OF le])
  qed
  have c: "epsilon \<le> 1 / 2 \<and> x < epsilon \<longrightarrow> fclip epsilon (1 - epsilon) (Fin x) = Fin epsilon"
  proof
    assume e: "epsilon \<le> 1 / 2 \<and> x < epsilon"
    then have le: "epsilon \<le> 1 - epsilon" by simp
    show "fclip epsilon (1 - epsilon) (Fin x) = Fin epsilon"
      using e le by (simp add: fclip_Fin [OF le])
  qed
  have d: "epsilon \<le> 1 / 2 \<and> 1 - epsilon < x \<longrightarrow>
      fclip epsilon (1 - epsilon) (Fin x) = Fin (1 - epsilon)"
  proof
    assume e: "epsilon \<le> 1 / 2 \<and> 1 - epsilon < x"
    then have le: "epsilon \<le> 1 - epsilon" by simp
    show "fclip epsilon (1 - epsilon) (Fin x) = Fin (1 - epsilon)"
      using e le by (simp add: fclip_Fin [OF le])
  qed
  from a b c d show ?thesis by (intro conjI)
qed

theorem bce_no_domain_validation_witness:
  "length [Fin 2, NaN] = length [Fin 3, Fin (- 1)]
   \<and> (1 / 4 :: real) \<le> 1 / 2
   \<and> binary_cross_entropy [Fin 2, NaN] [Fin 3, Fin (- 1)] (1 / 4) =
        Inr (np_mean (map2 bce_elem [Fin 2, NaN] [Fin (3 / 4), Fin (1 / 4)]))
   \<and> binary_focal_cross_entropy [Fin 2, NaN] [Fin 3, Fin (- 1)] 2 (1 / 4) (1 / 4) =
        Inr (np_mean (map2 (bcfe_elem 2 (1 / 4)) [Fin 2, NaN] [Fin (3 / 4), Fin (1 / 4)]))
   \<and> fclip (1 / 4) (1 - 1 / 4) (Fin 3) = Fin (3 / 4)
   \<and> fclip (1 / 4) (1 - 1 / 4) (Fin (- 1)) = Fin (1 / 4)"
  using bce_no_domain_validation [of "[Fin 2, NaN]" "[Fin 3, Fin (- 1)]" "1 / 4" 2 "1 / 4" "[3, - 1]" 3]
    bce_no_domain_validation [of "[Fin 2, NaN]" "[Fin 3, Fin (- 1)]" "1 / 4" 2 "1 / 4" "[3, - 1]" "- 1"]
  by (simp add: np_clip_def)

subsection \<open>Categorical cross-entropy\<close>

lemma isclose_row_sum:
  "isclose (np_sum (map Fin r)) 1 epsilon epsilon = (\<bar>sum_list r - 1\<bar> \<le> 2 * epsilon)"
  by (simp add: np_sum_Fin)

text \<open>
  C4. For arrays of the same shape, \<open>categorical_cross_entropy\<close> raises \<^verbatim>\<open>ValueError\<close>
  when a row of \<open>y_true\<close> has an entry other than 0 and 1 or does not sum to 1, and
  when a row of \<open>y_pred\<close> has a sum that is not close to 1, where close means
  \<^verbatim>\<open>np.isclose\<close> with both tolerances \<open>epsilon\<close> (for a finite sum \<open>s\<close>:
  \<open>\<bar>s - 1\<bar> \<le> 2 * epsilon\<close>). A loss is returned only when both checks pass.
\<close>

theorem cce_rejects_bad_rows:
  "shape2 y_true = shape2 y_pred \<Longrightarrow>
     ((\<exists>r\<in>set (rows y_true). \<exists>t\<in>set r. t \<noteq> Fin 0 \<and> t \<noteq> Fin 1)
        \<or> (\<exists>r\<in>set (rows y_true). np_sum r \<noteq> Fin 1) \<longrightarrow>
      categorical_cross_entropy y_true y_pred epsilon =
        Inl (ValueError ''y_true must be one-hot encoded.''))
   \<and> ((\<exists>r\<in>set (rows y_pred). \<not> isclose (np_sum r) 1 epsilon epsilon) \<longrightarrow>
      is_InvalidInput (categorical_cross_entropy y_true y_pred epsilon))
   \<and> (\<forall>v. categorical_cross_entropy y_true y_pred epsilon = Inr v \<longrightarrow>
        (\<forall>r\<in>set (rows y_true). (\<forall>t\<in>set r. t = Fin 0 \<or> t = Fin 1) \<and> np_sum r = Fin 1)
      \<and> (\<forall>r\<in>set (rows y_pred). isclose (np_sum r) 1 epsilon epsilon))
   \<and> (\<forall>r. isclose (np_sum (map Fin r)) 1 epsilon epsilon = (\<bar>sum_list r - 1\<bar> \<le> 2 * epsilon))"
proof -
  assume sh: "shape2 y_true = shape2 y_pred"
  have a: "(\<exists>r\<in>set (rows y_true). \<exists>t\<in>set r. t \<noteq> Fin 0 \<and> t \<noteq> Fin 1)
        \<or> (\<exists>r\<in>set (rows y_true). np_sum r \<noteq> Fin 1) \<longrightarrow>
      categorical_cross_entropy y_true y_pred epsilon =
        Inl (ValueError ''y_true must be one-hot encoded.'')"
    using sh by (auto simp: categorical_cross_entropy_def list_ex_iff fne_Fin)
  have b: "(\<exists>r\<in>set (rows y_pred). \<not> isclose (np_sum r) 1 epsilon epsilon) \<longrightarrow>
      is_InvalidInput (categorical_cross_entropy y_true y_pred epsilon)"
    using sh by (auto simp: categorical_cross_entropy_def list_all_iff)
  have c: "\<forall>v. categorical_cross_entropy y_true y_pred epsilon = Inr v \<longrightarrow>
        (\<forall>r\<in>set (rows y_true). (\<forall>t\<in>set r. t = Fin 0 \<or> t = Fin 1) \<and> np_sum r = Fin 1)
      \<and> (\<forall>r\<in>set (rows y_pred). isclose (np_sum r) 1 epsilon epsilon)"
    using sh by (auto simp: categorical_cross_entropy_def list_ex_iff list_all_iff fne_Fin
        split: if_splits)
  have d: "\<forall>r. isclose (np_sum (map Fin r)) 1 epsilon epsilon = (\<bar>sum_list r - 1\<bar> \<le> 2 * epsilon)"
    by (simp add: isclose_row_sum)
  from a b c d show ?thesis by (intro conjI)
qed

theorem cce_rejects_bad_rows_witness:
  "shape2 \<lparr>shape2 = (2, 3), rows = [[Fin 1, Fin 0, Fin 1], [Fin 1, Fin 0, Fin 0]]\<rparr>
     = shape2 \<lparr>shape2 = (2, 3), rows = [[Fin 0.9, Fin 0.1, Fin 0], [Fin 0.2, Fin 0.7, Fin 0.1]]\<rparr>
   \<and> np_sum [Fin 1, Fin 0, Fin 1] \<noteq> Fin 1
   \<and> categorical_cross_entropy
       \<lparr>shape2 = (2, 3), rows = [[Fin 1, Fin 0, Fin 1], [Fin 1, Fin 0, Fin 0]]\<rparr>
       \<lparr>shape2 = (2, 3), rows = [[Fin 0.9, Fin 0.1, Fin 0], [Fin 0.2, Fin 0.7, Fin 0.1]]\<rparr>
       (1 / 10 ^ 15)
     = Inl (ValueError ''y_true must be one-hot encoded.'')"
proof -
  let ?A = "\<lparr>shape2 = (2, 3), rows = [[Fin 1, Fin 0, Fin 1], [Fin 1, Fin 0, Fin 0]]\<rparr>"
  let ?B = "\<lparr>shape2 = (2, 3), rows = [[Fin 0.9, Fin 0.1, Fin 0], [Fin 0.2, Fin 0.7, Fin 0.1]]\<rparr>"
  have sh: "shape2 ?A = shape2 ?B" by simp
  have s: "np_sum [Fin 1, Fin 0, Fin 1] \<noteq> Fin 1" by simp
  then have bad: "(\<exists>r\<in>set (rows ?A). \<exists>t\<in>set r. t \<noteq> Fin 0 \<and> t \<noteq> Fin 1)
        \<or> (\<exists>r\<in>set (rows ?A). np_sum r \<noteq> Fin 1)" by simp
  have "categorical_cross_entropy ?A ?B (1 / 10 ^ 15)
      = Inl (ValueError ''y_true must be one-hot encoded.'')"
    using cce_rejects_bad_rows [OF sh, of "1 / 10 ^ 15", THEN conjunct1] bad by (rule mp)
  with sh s show ?thesis by (intro conjI)
qed

subsection \<open>Contrastive loss\<close>

lemma sum_squares_nonneg: "0 \<le> sum_list (map2 (\<lambda>x y. (x - y)\<^sup>2) a (b :: real list))"
  by (auto intro!: sum_list_nonneg)

lemma linalg_norm_pair:
  "linalg_norm (subtract_reduce (pair_plane ab)) = Fin (euclid (fst ab) (snd ab))"
proof -
  have 1: "subtract_reduce (pair_plane ab) = map Fin (map2 (\<lambda>x y. x - y) (fst ab) (snd ab))"
    by (simp add: subtract_reduce_def pair_plane_def fsub_def
        map2_Fin [of fsub "\<lambda>x y. x - y"])
  have 2: "map fsquare (map Fin (map2 (\<lambda>x y. x - y) (fst ab) (snd ab)))
           = map Fin (map2 (\<lambda>x y. (x - y)\<^sup>2) (fst ab) (snd ab))"
    by (auto simp: fsquare_def power2_eq_square)
  show ?thesis
    unfolding linalg_norm_def 1 2 np_sum_Fin euclid_def
    using sum_squares_nonneg [of "fst ab" "snd ab"] by simp
qed

lemma select_similar:
  "length ds = length ts \<Longrightarrow> set ts \<subseteq> {0, 1} \<Longrightarrow>
   mask_select (map Fin ds) (map (\<lambda>t. \<not> astype_bool t) (map Fin ts))
   = map Fin (map fst (filter (\<lambda>(d, t). t = 0) (zip ds ts)))"
  by (induction ds ts rule: list_induct2) (auto simp: mask_select_def astype_bool_def)

lemma select_dissimilar:
  "length ds = length ts \<Longrightarrow> set ts \<subseteq> {0, 1} \<Longrightarrow>
   mask_select (map Fin ds) (map astype_bool (map Fin ts))
   = map Fin (map fst (filter (\<lambda>(d, t). t = 1) (zip ds ts)))"
  by (induction ds ts rule: list_induct2) (auto simp: mask_select_def astype_bool_def)

lemma margin_Fin: "fmaximum (Fin 0) (fsub (Fin m) (Fin d)) = Fin (max 0 (m - d))"
  by (auto simp: fmaximum_def fsub_def max_def)

lemma filter_zip_map_fst:
  "length ps = length ts \<Longrightarrow>
   map fst (filter (\<lambda>(d, t). P t) (zip (map f ps) ts))
   = map (\<lambda>(p, t). f p) (filter (\<lambda>(p, t). P t) (zip ps ts))"
  by (induction ps ts rule: list_induct2) auto

lemma contrastive_loss_real:
  assumes pl: "planes inputs = map pair_plane pairs"
    and b: "fst (shape3 inputs) = length pairs"
    and two: "fst (snd (shape3 inputs)) = 2"
    and len: "length ts = length pairs"
    and dom: "set ts \<subseteq> {0, 1}"
  shows "contrastive_loss inputs (map Fin ts) m = Inr (Fin (contrastive_spec pairs ts m))"
proof -
  let ?ds = "map (\<lambda>ab. euclid (fst ab) (snd ab)) pairs"
  have dist: "map (\<lambda>p. linalg_norm (subtract_reduce p)) (planes inputs) = map Fin ?ds"
    by (simp add: pl linalg_norm_pair)
  have ok: "\<not> list_ex (\<lambda>t. fne t (Fin 1) \<and> fne t (Fin 0)) (map Fin ts)"
    using dom by (auto simp: list_ex_iff fne_Fin)
  have l: "length ?ds = length ts" using len by simp
  have sim: "np_sum (mask_select (map Fin ?ds) (map (\<lambda>t. \<not> astype_bool t) (map Fin ts)))
      = Fin (sum_list (map (\<lambda>(ab, t). euclid (fst ab) (snd ab))
                (filter (\<lambda>(ab, t). t = 0) (zip pairs ts))))"
    using len by (simp only: select_similar [OF l dom] np_sum_Fin
        filter_zip_map_fst [of pairs ts "\<lambda>t. t = 0" "\<lambda>ab. euclid (fst ab) (snd ab)"])
  have dis0: "map (\<lambda>d. fmaximum (Fin 0) (fsub (Fin m) d)) (map Fin xs)
      = map Fin (map (\<lambda>d. max 0 (m - d)) xs)" for xs
    by (simp add: margin_Fin)
  have dis1: "map (\<lambda>d. max 0 (m - d)) (map fst (filter (\<lambda>(d, t). t = 1) (zip ?ds ts)))
      = map (\<lambda>(ab, t). max 0 (m - euclid (fst ab) (snd ab)))
            (filter (\<lambda>(ab, t). t = 1) (zip pairs ts))"
    using len by (induction ts pairs rule: list_induct2) auto
  have dis: "np_sum (map (\<lambda>d. fmaximum (Fin 0) (fsub (Fin m) d))
                 (mask_select (map Fin ?ds) (map astype_bool (map Fin ts))))
      = Fin (sum_list (map (\<lambda>(ab, t). max 0 (m - euclid (fst ab) (snd ab)))
                (filter (\<lambda>(ab, t). t = 1) (zip pairs ts))))"
    by (simp only: select_dissimilar [OF l dom] dis0 dis1 np_sum_Fin)
  have chk: "fst (shape3 inputs) = length (map Fin ts)" using b len by simp
  show ?thesis
    unfolding contrastive_loss_def Let_def dist sim dis contrastive_spec_def
    using chk two ok by simp
qed

lemma sqrt_between:
  assumes "0 \<le> lo" "lo\<^sup>2 \<le> s" "0 \<le> hi" "s \<le> hi\<^sup>2"
  shows "lo \<le> sqrt s \<and> sqrt s \<le> hi"
  using assms by (simp add: real_le_rsqrt real_le_lsqrt)

lemma example_spec_value:
  "contrastive_spec example_pairs [0, 1] 10 =
     sqrt (5657606464751769 / 5000000000000000)
     + max 0 (10 - sqrt (11606004870473883 / 10000000000000000))"
  by (simp add: contrastive_spec_def example_pairs_def euclid_def power2_eq_square)

lemma example_close:
  "\<bar>contrastive_spec example_pairs [0, 1] 10 - 9.986418202141381\<bar> \<le> 1 / 10 ^ 9"
proof -
  define a where "a = sqrt (5657606464751769 / 5000000000000000)"
  define b where "b = sqrt (11606004870473883 / 10000000000000000)"
  have d1: "1063729896613 / 1000000000000 \<le> a \<and> a \<le> 531864948307 / 500000000000"
    unfolding a_def by (rule sqrt_between) (simp_all add: power2_eq_square)
  have d2: "134663961809 / 125000000000 \<le> b \<and> b \<le> 1077311694473 / 1000000000000"
    unfolding b_def by (rule sqrt_between) (simp_all add: power2_eq_square)
  have m: "max 0 (10 - b) = 10 - b" using d2 by (simp add: max_def)
  have c: "(9.986418202141381 :: real) = 9986418202141381 / 1000000000000000"
    by simp
  have "\<bar>a + (10 - b) - 9986418202141381 / 1000000000000000\<bar> \<le> 1 / 1000000000"
    using d1 d2 by linarith
  then have "\<bar>a + (10 - b) - 9.986418202141381\<bar> \<le> 1 / 10 ^ 9"
    unfolding c by simp
  then show ?thesis
    unfolding example_spec_value a_def [symmetric] b_def [symmetric] m .
qed

text \<open>
  C5. For an \<open>inputs\<close> array of shape \<open>(B, 2, n)\<close> whose entries are pairs of real
  vectors, a \<open>target\<close> in \<open>{0, 1}\<^sup>B\<close> and a margin \<open>m\<close>, \<open>contrastive_loss\<close> returns the sum
  of the Euclidean distances \<open>d\<close> of the pairs with target 0 plus the sum of
  \<open>max 0 (m - d)\<close> over the pairs with target 1. On the two pairs of the docstring with
  target \<open>[0, 1]\<close> and \<open>m = 10\<close> the result is within \<open>10\<^sup>-\<^sup>9\<close> of 9.986418202141381.
\<close>

theorem contrastive_loss_formula:
  "(wf3 inputs \<and> planes inputs = map pair_plane pairs \<and> fst (shape3 inputs) = length pairs
      \<and> fst (snd (shape3 inputs)) = 2 \<and> length ts = length pairs \<and> set ts \<subseteq> {0, 1} \<longrightarrow>
      contrastive_loss inputs (map Fin ts) m = Inr (Fin (contrastive_spec pairs ts m)))
   \<and> (\<exists>v. contrastive_loss example_inputs (map Fin [0, 1]) 10 = Inr (Fin v)
          \<and> \<bar>v - 9.986418202141381\<bar> \<le> 1 / 10 ^ 9)"
proof -
  have ex: "contrastive_loss example_inputs (map Fin [0, 1]) 10
     = Inr (Fin (contrastive_spec example_pairs [0, 1] 10))"
    by (rule contrastive_loss_real) (simp_all add: example_inputs_def example_pairs_def)
  show ?thesis
    using ex example_close by (auto simp: contrastive_loss_real simp del: list.map)
qed

theorem contrastive_loss_formula_witness:
  "wf3 example_inputs \<and> set [0, 1 :: real] \<subseteq> {0, 1}
   \<and> contrastive_loss example_inputs (map Fin [0, 1]) 10
       = Inr (Fin (contrastive_spec example_pairs [0, 1] 10))"
  using contrastive_loss_formula [of example_inputs example_pairs "[0, 1]" 10]
  by (simp add: example_inputs_def example_pairs_def wf3_def pair_plane_def)

subsection \<open>Perplexity\<close>

text \<open>
  C1. The specification asks for \<^verbatim>\<open>ValueError\<close> when a label is greater than or equal to
  the vocabulary size. The check compares with \<^verbatim>\<open>>\<close>: in the docstring example with
  the label 4 replaced by 5, the vocabulary size, the check passes and the one-hot
  selection \<^verbatim>\<open>np.eye(5)[5]\<close> raises \<^verbatim>\<open>IndexError\<close>. A label of 6 raises \<^verbatim>\<open>ValueError\<close>.
\<close>

theorem perplexity_label_eq_vocab_size:
  "perplexity_loss \<lparr>shape2 = (2, 2), rows = [[1, 5], [2, 3]]\<rparr> example_y_pred (1 / 10 ^ 7)
     = Inl (IndexError 5 5)
   \<and> \<not> is_InvalidInput
       (perplexity_loss \<lparr>shape2 = (2, 2), rows = [[1, 5], [2, 3]]\<rparr> example_y_pred (1 / 10 ^ 7))
   \<and> perplexity_loss \<lparr>shape2 = (2, 2), rows = [[1, 6], [2, 3]]\<rparr> example_y_pred (1 / 10 ^ 7)
     = Inl (ValueError ''Label value must not be greater than vocabulary size.'')"
  by (simp add: perplexity_loss_def example_y_pred_def np_eye_row_def)

subsection \<open>Docstring examples\<close>

lemma doctest_hinge_loss:
  "hinge_loss (map Fin [- 1, 1, 1, - 1, 1]) (map Fin [- 4, - 0.3, 0.7, 5, 10]) = Inr (Fin 1.52)"
  by (simp add: hinge_loss_def hinge_elem_def fne_def feq_def fmaximum_def fsub_def np_mean_def)

lemma doctest_mean_squared_error:
  "mean_squared_error (map Fin [1, 2, 3, 4, 5]) (map Fin [0.8, 2.1, 2.9, 4.2, 5.2])
     = Inr (Fin 0.028)"
  by (simp add: mean_squared_error_def fsquare_def fsub_def np_mean_def)

lemma doctest_mean_absolute_error:
  "mean_absolute_error (map Fin [1, 2, 3, 4, 5]) (map Fin [0.8, 2.1, 2.9, 4.2, 5.2])
     = Inr (Fin 0.16)"
  by (simp add: mean_absolute_error_def fsub_def np_mean_def)

lemma doctest_mean_absolute_percentage_error:
  "mean_absolute_percentage_error (map Fin [10, 20, 30, 40]) (map Fin [12, 18, 33, 45])
     (1 / 10 ^ 15) = Inr (Fin 0.13125)"
  by (simp add: mean_absolute_percentage_error_def mape_where_def feq_def fsub_def np_mean_def)

subsection \<open>The store\<close>

lemma unchanged_refl: "unchanged h h"
  by (simp add: unchanged_def)

lemma unchanged_vec: "unchanged h h' \<Longrightarrow> a < length (vecs h) \<Longrightarrow> vecs h' ! a = vecs h ! a"
  unfolding unchanged_def by (metis nth_take)

lemma frame_bce: "unchanged h (snd (binary_cross_entropy_st h yt yp epsilon))"
  by (simp add: binary_cross_entropy_st_def new_vec_def unchanged_def)

lemma frame_bfce: "unchanged h (snd (binary_focal_cross_entropy_st h yt yp gamma alpha epsilon))"
  by (simp add: binary_focal_cross_entropy_st_def new_vec_def unchanged_def)

lemma frame_cce: "unchanged h (snd (categorical_cross_entropy_st h mt mp epsilon))"
  by (simp add: categorical_cross_entropy_st_def new_mat_def unchanged_def)

lemma frame_hinge: "unchanged h (snd (hinge_loss_st h yt yp))"
  by (simp add: hinge_loss_st_def new_vec_def unchanged_def)

lemma frame_huber: "unchanged h (snd (huber_loss_st h yt yp delta))"
  by (simp add: huber_loss_st_def new_vec_def unchanged_def)

lemma frame_mse: "unchanged h (snd (mean_squared_error_st h yt yp))"
  by (simp add: mean_squared_error_st_def new_vec_def unchanged_def)

lemma frame_mae: "unchanged h (snd (mean_absolute_error_st h yt yp))"
  by (simp add: mean_absolute_error_st_def unchanged_def)

lemma frame_msle: "unchanged h (snd (mean_squared_logarithmic_error_st h yt yp))"
  by (simp add: mean_squared_logarithmic_error_st_def new_vec_def unchanged_def)

lemma frame_mape: "unchanged h (snd (mean_absolute_percentage_error_st h yt yp epsilon))"
  by (simp add: mean_absolute_percentage_error_st_def new_vec_def unchanged_def)

lemma frame_perplexity: "unchanged h (snd (perplexity_loss_st h lt cp epsilon))"
  by (simp add: perplexity_loss_st_def new_vec_def new_mat_def new_cube_def unchanged_def
      Let_def split: sum.splits)

lemma frame_contrastive: "unchanged h (snd (contrastive_loss_st h ci tg m))"
  by (simp add: contrastive_loss_st_def new_vec_def unchanged_def Let_def)

lemma result_bce:
  "yt < length (vecs h) \<Longrightarrow> yp < length (vecs h) \<Longrightarrow>
   fst (binary_cross_entropy_st h yt yp epsilon)
     = binary_cross_entropy (vecs h ! yt) (vecs h ! yp) epsilon"
  by (simp add: binary_cross_entropy_st_def binary_cross_entropy_def new_vec_def nth_append)

lemma result_bfce:
  "yt < length (vecs h) \<Longrightarrow> yp < length (vecs h) \<Longrightarrow>
   fst (binary_focal_cross_entropy_st h yt yp gamma alpha epsilon)
     = binary_focal_cross_entropy (vecs h ! yt) (vecs h ! yp) gamma alpha epsilon"
  by (simp add: binary_focal_cross_entropy_st_def binary_focal_cross_entropy_def new_vec_def
      nth_append)

lemma result_cce:
  "mt < length (mats h) \<Longrightarrow> mp < length (mats h) \<Longrightarrow>
   fst (categorical_cross_entropy_st h mt mp epsilon)
     = categorical_cross_entropy (mats h ! mt) (mats h ! mp) epsilon"
  by (simp add: categorical_cross_entropy_st_def categorical_cross_entropy_def new_mat_def
      nth_append)

lemma result_hinge:
  "yt < length (vecs h) \<Longrightarrow> yp < length (vecs h) \<Longrightarrow>
   fst (hinge_loss_st h yt yp) = hinge_loss (vecs h ! yt) (vecs h ! yp)"
  by (simp add: hinge_loss_st_def hinge_loss_def new_vec_def nth_append)

lemma result_huber:
  "yt < length (vecs h) \<Longrightarrow> yp < length (vecs h) \<Longrightarrow>
   fst (huber_loss_st h yt yp delta) = huber_loss (vecs h ! yt) (vecs h ! yp) delta"
  by (simp add: huber_loss_st_def huber_loss_def new_vec_def nth_append)

lemma result_mse:
  "yt < length (vecs h) \<Longrightarrow> yp < length (vecs h) \<Longrightarrow>
   fst (mean_squared_error_st h yt yp) = mean_squared_error (vecs h ! yt) (vecs h ! yp)"
  by (simp add: mean_squared_error_st_def mean_squared_error_def new_vec_def nth_append)

lemma result_mae:
  "fst (mean_absolute_error_st h yt yp) = mean_absolute_error (vecs h ! yt) (vecs h ! yp)"
  by (simp add: mean_absolute_error_st_def mean_absolute_error_def)

lemma result_msle:
  "yt < length (vecs h) \<Longrightarrow> yp < length (vecs h) \<Longrightarrow>
   fst (mean_squared_logarithmic_error_st h yt yp)
     = mean_squared_logarithmic_error (vecs h ! yt) (vecs h ! yp)"
  by (simp add: mean_squared_logarithmic_error_st_def mean_squared_logarithmic_error_def
      new_vec_def nth_append)

lemma result_mape:
  "yt < length (vecs h) \<Longrightarrow> yp < length (vecs h) \<Longrightarrow>
   fst (mean_absolute_percentage_error_st h yt yp epsilon)
     = mean_absolute_percentage_error (vecs h ! yt) (vecs h ! yp) epsilon"
  by (simp add: mean_absolute_percentage_error_st_def mean_absolute_percentage_error_def
      new_vec_def nth_append)

lemma result_perplexity:
  "lt < length (labels h) \<Longrightarrow> cp < length (cubes h) \<Longrightarrow>
   fst (perplexity_loss_st h lt cp epsilon)
     = perplexity_loss (labels h ! lt) (cubes h ! cp) epsilon"
  by (simp add: perplexity_loss_st_def perplexity_loss_def new_vec_def new_mat_def new_cube_def
      nth_append Let_def split: sum.splits)

lemma result_contrastive:
  "ci < length (cubes h) \<Longrightarrow> tg < length (vecs h) \<Longrightarrow>
   fst (contrastive_loss_st h ci tg m) = contrastive_loss (cubes h ! ci) (vecs h ! tg) m"
  by (simp add: contrastive_loss_st_def contrastive_loss_def new_vec_def nth_append Let_def)

text \<open>
  C8. No function changes an array that was in the store before the call: after each of
  the eleven functions every array of the old store, the arguments among them, holds the
  values it held before; the arrays made by clipping and by zero-substitution are new
  cells. The scalar returned is the value the function computes from the contents of
  its arguments.
\<close>

theorem inputs_not_mutated:
  "unchanged h (snd (binary_cross_entropy_st h yt yp epsilon))
   \<and> unchanged h (snd (binary_focal_cross_entropy_st h yt yp gamma alpha epsilon))
   \<and> unchanged h (snd (categorical_cross_entropy_st h mt mp epsilon))
   \<and> unchanged h (snd (hinge_loss_st h yt yp))
   \<and> unchanged h (snd (huber_loss_st h yt yp delta))
   \<and> unchanged h (snd (mean_squared_error_st h yt yp))
   \<and> unchanged h (snd (mean_absolute_error_st h yt yp))
   \<and> unchanged h (snd (mean_squared_logarithmic_error_st h yt yp))
   \<and> unchanged h (snd (mean_absolute_percentage_error_st h yt yp epsilon))
   \<and> unchanged h (snd (perplexity_loss_st h lt cp epsilon))
   \<and> unchanged h (snd (contrastive_loss_st h ci tg m))
   \<and> (yt < length (vecs h) \<and> yp < length (vecs h) \<longrightarrow>
        vecs (snd (binary_cross_entropy_st h yt yp epsilon)) ! yp = vecs h ! yp
      \<and> vecs (snd (mean_absolute_percentage_error_st h yt yp epsilon)) ! yt = vecs h ! yt
      \<and> fst (binary_cross_entropy_st h yt yp epsilon)
          = binary_cross_entropy (vecs h ! yt) (vecs h ! yp) epsilon
      \<and> fst (binary_focal_cross_entropy_st h yt yp gamma alpha epsilon)
          = binary_focal_cross_entropy (vecs h ! yt) (vecs h ! yp) gamma alpha epsilon
      \<and> fst (hinge_loss_st h yt yp) = hinge_loss (vecs h ! yt) (vecs h ! yp)
      \<and> fst (huber_loss_st h yt yp delta) = huber_loss (vecs h ! yt) (vecs h ! yp) delta
      \<and> fst (mean_squared_error_st h yt yp) = mean_squared_error (vecs h ! yt) (vecs h ! yp)
      \<and> fst (mean_absolute_error_st h yt yp) = mean_absolute_error (vecs h ! yt) (vecs h ! yp)
      \<and> fst (mean_squared_logarithmic_error_st h yt yp)
          = mean_squared_logarithmic_error (vecs h ! yt) (vecs h ! yp)
      \<and> fst (mean_absolute_percentage_error_st h yt yp epsilon)
          = mean_absolute_percentage_error (vecs h ! yt) (vecs h ! yp) epsilon)
   \<and> (mt < length (mats h) \<and> mp < length (mats h) \<longrightarrow>
        fst (categorical_cross_entropy_st h mt mp epsilon)
          = categorical_cross_entropy (mats h ! mt) (mats h ! mp) epsilon)
   \<and> (lt < length (labels h) \<and> cp < length (cubes h) \<longrightarrow>
        fst (perplexity_loss_st h lt cp epsilon)
          = perplexity_loss (labels h ! lt) (cubes h ! cp) epsilon)
   \<and> (ci < length (cubes h) \<and> tg < length (vecs h) \<longrightarrow>
        fst (contrastive_loss_st h ci tg m)
          = contrastive_loss (cubes h ! ci) (vecs h ! tg) m)"
proof -
  have v: "yt < length (vecs h) \<and> yp < length (vecs h) \<longrightarrow>
        vecs (snd (binary_cross_entropy_st h yt yp epsilon)) ! yp = vecs h ! yp
      \<and> vecs (snd (mean_absolute_percentage_error_st h yt yp epsilon)) ! yt = vecs h ! yt
      \<and> fst (binary_cross_entropy_st h yt yp epsilon)
          = binary_cross_entropy (vecs h ! yt) (vecs h ! yp) epsilon
      \<and> fst (binary_focal_cross_entropy_st h yt yp gamma alpha epsilon)
          = binary_focal_cross_entropy (vecs h ! yt) (vecs h ! yp) gamma alpha epsilon
      \<and> fst (hinge_loss_st h yt yp) = hinge_loss (vecs h ! yt) (vecs h ! yp)
      \<and> fst (huber_loss_st h yt yp delta) = huber_loss (vecs h ! yt) (vecs h ! yp) delta
      \<and> fst (mean_squared_error_st h yt yp) = mean_squared_error (vecs h ! yt) (vecs h ! yp)
      \<and> fst (mean_absolute_error_st h yt yp) = mean_absolute_error (vecs h ! yt) (vecs h ! yp)
      \<and> fst (mean_squared_logarithmic_error_st h yt yp)
          = mean_squared_logarithmic_error (vecs h ! yt) (vecs h ! yp)
      \<and> fst (mean_absolute_percentage_error_st h yt yp epsilon)
          = mean_absolute_percentage_error (vecs h ! yt) (vecs h ! yp) epsilon"
    by (intro impI conjI; (elim conjE)?)
      (simp_all only: unchanged_vec [OF frame_bce] unchanged_vec [OF frame_mape]
        result_bce result_bfce result_hinge result_huber result_mse result_mae result_msle
        result_mape)
  have m: "mt < length (mats h) \<and> mp < length (mats h) \<longrightarrow>
        fst (categorical_cross_entropy_st h mt mp epsilon)
          = categorical_cross_entropy (mats h ! mt) (mats h ! mp) epsilon"
    by (simp add: result_cce)
  have p: "lt < length (labels h) \<and> cp < length (cubes h) \<longrightarrow>
        fst (perplexity_loss_st h lt cp epsilon)
          = perplexity_loss (labels h ! lt) (cubes h ! cp) epsilon"
    by (simp add: result_perplexity)
  have c: "ci < length (cubes h) \<and> tg < length (vecs h) \<longrightarrow>
        fst (contrastive_loss_st h ci tg m)
          = contrastive_loss (cubes h ! ci) (vecs h ! tg) m"
    by (simp add: result_contrastive)
  from v m p c show ?thesis
    by (intro conjI frame_bce frame_bfce frame_cce frame_hinge frame_huber frame_mse frame_mae
        frame_msle frame_mape frame_perplexity frame_contrastive)
qed

theorem inputs_not_mutated_witness:
  "(0 :: nat) < length (vecs example_heap) \<and> (1 :: nat) < length (vecs example_heap)
   \<and> vecs (snd (binary_cross_entropy_st example_heap 0 1 (1 / 4))) ! 1 = [Fin 3, Fin (- 1)]
   \<and> vecs (snd (binary_cross_entropy_st example_heap 0 1 (1 / 4))) ! 2
        = [Fin (3 / 4), Fin (1 / 4)]
   \<and> unchanged example_heap (snd (binary_cross_entropy_st example_heap 0 1 (1 / 4)))"
proof -
  have a: "(0 :: nat) < length (vecs example_heap) \<and> (1 :: nat) < length (vecs example_heap)"
    by (simp add: example_heap_def)
  have b: "vecs example_heap ! 1 = [Fin 3, Fin (- 1)]"
    by (simp add: example_heap_def)
  have c: "vecs (snd (binary_cross_entropy_st example_heap 0 1 (1 / 4))) ! 2
        = [Fin (3 / 4), Fin (1 / 4)]"
    by (simp add: example_heap_def binary_cross_entropy_st_def new_vec_def np_clip_def
        fclip_def fminimum_def fmaximum_def)
  note t = inputs_not_mutated [of example_heap 0 1 "1 / 4"]
  from t have u: "unchanged example_heap (snd (binary_cross_entropy_st example_heap 0 1 (1 / 4)))"
    by (rule conjunct1)
  from t a have "vecs (snd (binary_cross_entropy_st example_heap 0 1 (1 / 4))) ! 1
      = vecs example_heap ! 1"
    by blast
  with a b c u show ?thesis by simp
qed

end
